theory Spec2Isabelle
  imports Main
begin

section \<open>Browser environment\<close>

text \<open>
  The client keeps its credentials in the browser's \<^verbatim>\<open>localStorage\<close>, a map from
  string keys to string values.  Besides the store, the code acts on the outside world by
  assigning \<^verbatim>\<open>window.location.href\<close>, by calling \<^verbatim>\<open>fetch\<close> and by arming timers
  with \<^verbatim>\<open>setTimeout\<close>; every such action is appended to a trace, oldest first, so that
  "exactly one network call" and "one navigation" can be counted.
\<close>

type_synonym localStorage = "string \<rightharpoonup> string"

datatype effect =
    SetItem string string
  | RemoveItem string
  | Navigate string
  | FetchRefresh string
  | SetTimeout int

text \<open>The frontend user object of \<^verbatim>\<open>AuthContext.tsx\<close> (interface \<^verbatim>\<open>User\<close>).\<close>

record User =
  user_id :: string
  user_name :: string
  user_email :: string
  storeName :: string
  storeId :: string

text \<open>
  One record holds the mutable state the two modules share: the store and the trace, the
  \<^verbatim>\<open>refreshPromise\<close> slot of the \<^verbatim>\<open>TokenManager\<close> singleton (\<open>Some rt\<close> while the
  promise of \<^verbatim>\<open>performTokenRefresh(rt)\<close> is pending, \<open>None\<close> for \<^verbatim>\<open>null\<close>), and the
  React state of \<^verbatim>\<open>AuthProvider\<close>.
\<close>

record app =
  storage :: localStorage
  trace :: "effect list"
  refreshPromise :: "string option"
  user :: "User option"
  loading :: bool
  error :: string
  isInitialized :: bool

definition getItem :: "string \<Rightarrow> app \<Rightarrow> string option" where
  "getItem k s = storage s k"

definition setItem :: "string \<Rightarrow> string \<Rightarrow> app \<Rightarrow> app" where
  "setItem k v s = s\<lparr>storage := (storage s)(k \<mapsto> v), trace := trace s @ [SetItem k v]\<rparr>"

definition removeItem :: "string \<Rightarrow> app \<Rightarrow> app" where
  "removeItem k s = s\<lparr>storage := (storage s)(k := None), trace := trace s @ [RemoveItem k]\<rparr>"

text \<open>\<^verbatim>\<open>window.location.href = url\<close>\<close>

definition navigate :: "string \<Rightarrow> app \<Rightarrow> app" where
  "navigate url s = s\<lparr>trace := trace s @ [Navigate url]\<rparr>"

text \<open>
  JavaScript truthiness of a \<^verbatim>\<open>string | null\<close>: \<^verbatim>\<open>null\<close> and the empty string are falsy.
\<close>

fun truthy :: "string option \<Rightarrow> bool" where
  "truthy None = False"
| "truthy (Some v) = (v \<noteq> [])"

text \<open>
  \<^verbatim>\<open>localStorage.setItem\<close> stores the string conversion of its argument; an
  \<^verbatim>\<open>undefined\<close> field of a response is stored as the text \<^verbatim>\<open>undefined\<close>.
\<close>

fun js_string :: "string option \<Rightarrow> string" where
  "js_string None = ''undefined''"
| "js_string (Some v) = v"

text \<open>Decimal \<^verbatim>\<open>toString()\<close> of an integral number.\<close>

definition digit_char :: "nat \<Rightarrow> char" where
  "digit_char n = ''0123456789'' ! n"

fun show_nat :: "nat \<Rightarrow> string" where
  "show_nat n = (if n < 10 then [digit_char n] else show_nat (n div 10) @ [digit_char (n mod 10)])"

definition show_int :: "int \<Rightarrow> string" where
  "show_int i = (if i < 0 then CHR ''-'' # show_nat (nat (- i)) else show_nat (nat i))"

text \<open>\<^verbatim>\<open>token.split('.')\<close>\<close>

fun split_dot :: "string \<Rightarrow> string list" where
  "split_dot [] = [[]]"
| "split_dot (c # cs) =
     (if c = CHR ''.'' then [] # split_dot cs
      else (case split_dot cs of [] \<Rightarrow> [[c]] | p # ps \<Rightarrow> (c # p) # ps))"

section \<open>TokenManager\<close>

text \<open>
  \<^verbatim>\<open>JSON.parse(atob(part)).exp\<close> belongs to the platform, not to the repository; the
  functions below take it as a parameter \<open>dec\<close>.  It either throws (\<open>ParseError\<close>: the
  part is not base64, not JSON, or the payload is \<^verbatim>\<open>null\<close>), has no numeric value
  (\<open>ExpNaN\<close>: \<^verbatim>\<open>payload.exp * 1000\<close> is \<^verbatim>\<open>NaN\<close>, and every comparison with it is
  false), or is a number of seconds.  Times are integral numbers of seconds and
  milliseconds, in the range where JavaScript's numbers are exact.
\<close>

datatype payload_exp = ParseError | ExpNaN | ExpSeconds int

definition getAccessToken :: "app \<Rightarrow> string option" where
  "getAccessToken s = getItem ''auth_token'' s"

definition getRefreshToken :: "app \<Rightarrow> string option" where
  "getRefreshToken s = getItem ''refresh_token'' s"

definition fiveMinutes :: int where
  "fiveMinutes = 5 * 60 * 1000"

text \<open>
  \<^verbatim>\<open>isTokenExpired(token?)\<close>; \<open>now\<close> is \<^verbatim>\<open>Date.now()\<close> in milliseconds.  The skew is
  the constant \<open>fiveMinutes\<close>, the method has no parameter for it.
\<close>

definition isTokenExpired :: "(string \<Rightarrow> payload_exp) \<Rightarrow> int \<Rightarrow> string option \<Rightarrow> app \<Rightarrow> bool" where
  "isTokenExpired dec now token s =
     (case (if truthy token then token else getAccessToken s) of
        None \<Rightarrow> True
      | Some tokenToCheck \<Rightarrow>
          if tokenToCheck = [] then True
          else if tokenToCheck = ''local-test-token'' then False
          else (let parts = split_dot tokenToCheck in
                if length parts \<noteq> 3 then False
                else (case dec (parts ! 1) of
                        ParseError \<Rightarrow> False
                      | ExpNaN \<Rightarrow> False
                      | ExpSeconds e \<Rightarrow> e * 1000 - now < fiveMinutes)))"

record TokenData =
  access_token :: string
  refresh_token :: string
  expires_at :: int

definition setTokens :: "int \<Rightarrow> TokenData \<Rightarrow> app \<Rightarrow> app" where
  "setTokens now tokenData s =
     setItem ''token_expires_at'' (show_int (now + expires_at tokenData * 1000))
       (setItem ''refresh_token'' (refresh_token tokenData)
         (setItem ''auth_token'' (access_token tokenData) s))"

definition clearTokens :: "app \<Rightarrow> app" where
  "clearTokens s =
     removeItem ''user_data''
       (removeItem ''token_expires_at''
         (removeItem ''refresh_token''
           (removeItem ''auth_token'' s)))"

text \<open>
  The reply of the refresh endpoint as \<^verbatim>\<open>performTokenRefresh\<close> sees it: \<^verbatim>\<open>fetch\<close>
  rejects (\<open>FetchFailed\<close>, a transport error), or it yields a response with a status and
  a body; \<open>BodyInvalid\<close> is a body on which \<^verbatim>\<open>response.json()\<close> rejects (it is not
  JSON) or yields \<^verbatim>\<open>null\<close>, whose fields cannot be read, and a field the parsed
  object lacks is \<^verbatim>\<open>undefined\<close> (\<open>None\<close>).
\<close>

record refresh_data =
  data_access_token :: "string option"
  data_refresh_token :: "string option"
  data_expires_in :: "int option"

datatype refresh_body = BodyInvalid | Body refresh_data

datatype refresh_response = FetchFailed | Response int refresh_body

definition response_ok :: "int \<Rightarrow> bool" where
  "response_ok status = (200 \<le> status \<and> status \<le> 299)"

text \<open>
  \<^verbatim>\<open>performTokenRefresh\<close> suspends at \<^verbatim>\<open>await fetch(...)\<close> (and, on an ok status, at
  \<^verbatim>\<open>await response.json()\<close>).  The part before the suspension issues the request; the
  part after it runs when the reply \<open>r\<close>, status and body, has arrived, at time \<open>now\<close>.
\<close>

definition performTokenRefresh_send :: "string \<Rightarrow> app \<Rightarrow> app" where
  "performTokenRefresh_send refreshToken s = s\<lparr>trace := trace s @ [FetchRefresh refreshToken]\<rparr>"

definition performTokenRefresh_recv :: "int \<Rightarrow> string \<Rightarrow> refresh_response \<Rightarrow> app \<Rightarrow> bool \<times> app" where
  "performTokenRefresh_recv now refreshToken r s =
     (case r of
        FetchFailed \<Rightarrow> (False, clearTokens s)
      | Response status body \<Rightarrow>
          if response_ok status then
            (case body of
               BodyInvalid \<Rightarrow> (False, clearTokens s)
             | Body d \<Rightarrow>
                 (True,
                  setTokens now
                    \<lparr>access_token = js_string (data_access_token d),
                     refresh_token =
                       (if truthy (data_refresh_token d) then js_string (data_refresh_token d)
                        else refreshToken),
                     expires_at =
                       (case data_expires_in d of
                          None \<Rightarrow> 3600
                        | Some n \<Rightarrow> if n = 0 then 3600 else n)\<rparr>
                    s))
          else (False, clearTokens s))"

definition performTokenRefresh :: "int \<Rightarrow> string \<Rightarrow> refresh_response \<Rightarrow> app \<Rightarrow> bool \<times> app" where
  "performTokenRefresh now refreshToken r s =
     performTokenRefresh_recv now refreshToken r (performTokenRefresh_send refreshToken s)"

text \<open>
  An \<^verbatim>\<open>async\<close> function runs synchronously up to its first \<^verbatim>\<open>await\<close> on a pending
  promise.  Its start either returns, or is left waiting for the pending refresh request
  (identified by the refresh token it carries).
\<close>

datatype 'a started = Returned 'a | Awaiting string

text \<open>
  \<^verbatim>\<open>refreshAccessToken\<close> up to \<^verbatim>\<open>await this.refreshPromise\<close>: a caller that finds the
  slot taken gets the promise in it; with no refresh token the store is cleared and the
  result is \<^verbatim>\<open>false\<close>; otherwise the request is issued and the slot is taken.
\<close>

definition refreshAccessToken_start :: "app \<Rightarrow> bool started \<times> app" where
  "refreshAccessToken_start s =
     (case refreshPromise s of
        Some pending \<Rightarrow> (Awaiting pending, s)
      | None \<Rightarrow>
          (case getRefreshToken s of
             None \<Rightarrow> (Returned False, clearTokens s)
           | Some refreshToken \<Rightarrow>
               if refreshToken = [] then (Returned False, clearTokens s)
               else (Awaiting refreshToken,
                     (performTokenRefresh_send refreshToken s)\<lparr>refreshPromise := Some refreshToken\<rparr>)))"

text \<open>
  The reply \<open>r\<close> to the pending request arrives at time \<open>now\<close>: \<^verbatim>\<open>performTokenRefresh\<close>
  finishes, and the continuation of the \<^verbatim>\<open>refreshAccessToken\<close> call that owns the request
  sets \<^verbatim>\<open>this.refreshPromise = null\<close>.
\<close>

definition refreshAccessToken_settle :: "int \<Rightarrow> string \<Rightarrow> refresh_response \<Rightarrow> app \<Rightarrow> bool \<times> app" where
  "refreshAccessToken_settle now refreshToken r s =
     (let (result, s1) = performTokenRefresh_recv now refreshToken r s
      in (result, s1\<lparr>refreshPromise := None\<rparr>))"

text \<open>\<^verbatim>\<open>getValidAccessToken\<close> after \<^verbatim>\<open>await this.refreshAccessToken()\<close>.\<close>

definition getValidAccessToken_resume :: "bool \<Rightarrow> app \<Rightarrow> string option \<times> app" where
  "getValidAccessToken_resume refreshed s =
     (if refreshed then (getAccessToken s, s) else (None, navigate ''/'' s))"

text \<open>\<^verbatim>\<open>getValidAccessToken\<close> up to that \<^verbatim>\<open>await\<close>.\<close>

definition getValidAccessToken_start ::
  "(string \<Rightarrow> payload_exp) \<Rightarrow> int \<Rightarrow> app \<Rightarrow> string option started \<times> app" where
  "getValidAccessToken_start dec now s =
     (case getAccessToken s of
        None \<Rightarrow> (Returned None, s)
      | Some accessToken \<Rightarrow>
          if accessToken = [] then (Returned None, s)
          else if accessToken = ''local-test-token'' then (Returned (Some accessToken), s)
          else if \<not> isTokenExpired dec now (Some accessToken) s then (Returned (Some accessToken), s)
          else (case refreshAccessToken_start s of
                  (Returned refreshed, s1) \<Rightarrow>
                    (let (v, s2) = getValidAccessToken_resume refreshed s1 in (Returned v, s2))
                | (Awaiting pending, s1) \<Rightarrow> (Awaiting pending, s1)))"

text \<open>
  One call of \<^verbatim>\<open>getValidAccessToken\<close> run to its end, with nothing else in between:
  \<open>reply\<close> is the time and the content of the refresh endpoint's answer, read only when
  the call has to wait for one.
\<close>

definition getValidAccessToken ::
  "(string \<Rightarrow> payload_exp) \<Rightarrow> int \<Rightarrow> int \<times> refresh_response \<Rightarrow> app \<Rightarrow> string option \<times> app" where
  "getValidAccessToken dec now reply s =
     (case getValidAccessToken_start dec now s of
        (Returned v, s1) \<Rightarrow> (v, s1)
      | (Awaiting pending, s1) \<Rightarrow>
          (let (refreshed, s2) = refreshAccessToken_settle (fst reply) pending (snd reply) s1
           in getValidAccessToken_resume refreshed s2))"

text \<open>
  \<^verbatim>\<open>scheduleTokenRefresh\<close>; the timer's callback is \<^verbatim>\<open>refreshAccessToken\<close>, the trace
  keeps its delay in milliseconds.
\<close>

definition setTimeout :: "int \<Rightarrow> app \<Rightarrow> app" where
  "setTimeout delay s = s\<lparr>trace := trace s @ [SetTimeout delay]\<rparr>"

definition scheduleTokenRefresh :: "(string \<Rightarrow> payload_exp) \<Rightarrow> int \<Rightarrow> app \<Rightarrow> app" where
  "scheduleTokenRefresh dec now s =
     (case getAccessToken s of
        None \<Rightarrow> s
      | Some token \<Rightarrow>
          if token = [] \<or> isTokenExpired dec now (Some token) s then s
          else if token = ''local-test-token'' then s
          else (let parts = split_dot token in
                if length parts \<noteq> 3 then s
                else (case dec (parts ! 1) of
                        ParseError \<Rightarrow> s
                      | ExpNaN \<Rightarrow> s
                      | ExpSeconds e \<Rightarrow>
                          (let refreshTime = e * 1000 - now - 10 * 60 * 1000
                           in if refreshTime > 0 then setTimeout refreshTime s else s))))"

subsection \<open>Concurrent callers\<close>

text \<open>
  The runtime is a single-threaded event loop.  A caller is a pending call of
  \<^verbatim>\<open>getValidAccessToken\<close>, named by a number; \<open>awaiting\<close> lists the callers suspended on
  the refresh promise in the order in which they attached, \<open>settled\<close> maps every
  finished caller to its result.  An event is a new call at some time, or the arrival
  of the refresh endpoint's reply, on which the owner's continuation and then those of
  all attached callers run before any other event.
\<close>

record sys =
  core :: app
  awaiting :: "nat list"
  settled :: "nat \<rightharpoonup> string option"

datatype event = Call nat int | Reply int refresh_response

definition resume :: "bool \<Rightarrow> sys \<Rightarrow> nat \<Rightarrow> sys" where
  "resume refreshed y i =
     (let (v, s1) = getValidAccessToken_resume refreshed (core y)
      in y\<lparr>core := s1, settled := (settled y)(i \<mapsto> v)\<rparr>)"

fun step :: "(string \<Rightarrow> payload_exp) \<Rightarrow> sys \<Rightarrow> event \<Rightarrow> sys" where
  "step dec y (Call i now) =
     (case getValidAccessToken_start dec now (core y) of
        (Returned v, s1) \<Rightarrow> y\<lparr>core := s1, settled := (settled y)(i \<mapsto> v)\<rparr>
      | (Awaiting pending, s1) \<Rightarrow> y\<lparr>core := s1, awaiting := awaiting y @ [i]\<rparr>)"
| "step dec y (Reply now r) =
     (case refreshPromise (core y) of
        None \<Rightarrow> y
      | Some pending \<Rightarrow>
          (let (refreshed, s1) = refreshAccessToken_settle now pending r (core y)
           in foldl (resume refreshed) (y\<lparr>core := s1, awaiting := []\<rparr>) (awaiting y)))"

definition run :: "(string \<Rightarrow> payload_exp) \<Rightarrow> sys \<Rightarrow> event list \<Rightarrow> sys" where
  "run dec y evs = foldl (step dec) y evs"

definition fetches :: "effect list \<Rightarrow> nat" where
  "fetches tr = length (filter (\<lambda>e. case e of FetchRefresh rt \<Rightarrow> True | _ \<Rightarrow> False) tr)"

definition navigations :: "string \<Rightarrow> effect list \<Rightarrow> nat" where
  "navigations url tr = length (filter (\<lambda>e. e = Navigate url) tr)"

definition removals :: "string \<Rightarrow> effect list \<Rightarrow> nat" where
  "removals k tr = length (filter (\<lambda>e. e = RemoveItem k) tr)"

section \<open>HttpAdapter\<close>

text \<open>
  What the axios instance hands to its caller: the response's data, or an error object
  with the fields the code reads (\<^verbatim>\<open>code\<close>, \<^verbatim>\<open>message\<close>, \<^verbatim>\<open>response.status\<close>,
  \<^verbatim>\<open>response.data.error\<close>), each possibly \<^verbatim>\<open>undefined\<close>.
\<close>

record err_response =
  resp_status :: "int option"
  resp_error :: "string option"

record errorObj =
  err_code :: "string option"
  err_message :: "string option"
  err_response :: "err_response option"

datatype 'a axios_result = Rejected errorObj | Resolved 'a

text \<open>\<^verbatim>\<open>error.response?.status\<close> and \<^verbatim>\<open>error.response?.data?.error\<close>\<close>

definition error_status :: "errorObj \<Rightarrow> int option" where
  "error_status e = (case err_response e of None \<Rightarrow> None | Some resp \<Rightarrow> resp_status resp)"

definition error_data :: "errorObj \<Rightarrow> string option" where
  "error_data e = (case err_response e of None \<Rightarrow> None | Some resp \<Rightarrow> resp_error resp)"

text \<open>The error handler of the response interceptor.\<close>

definition response_rejected :: "errorObj \<Rightarrow> app \<Rightarrow> app" where
  "response_rejected e s =
     (if error_status e = Some 401
      then navigate ''/login'' (removeItem ''user_data'' (removeItem ''auth_token'' s))
      else s)"

text \<open>
  A request through the axios instance: the request interceptor asks the manager for a
  valid token (which may refresh), the server answers with \<open>out\<close>, and on an error the
  response interceptor runs before the caller sees the rejection.  The answer itself is
  the environment's; only the effects on the state are computed here.
\<close>

definition api_request ::
  "(string \<Rightarrow> payload_exp) \<Rightarrow> int \<Rightarrow> int \<times> refresh_response \<Rightarrow> 'a axios_result \<Rightarrow> app \<Rightarrow> app" where
  "api_request dec now reply out s =
     (let (token, s1) = getValidAccessToken dec now reply s
      in case out of Rejected e \<Rightarrow> response_rejected e s1 | Resolved d \<Rightarrow> s1)"

section \<open>AuthContext\<close>

text \<open>The body of a login or signup response, \<^verbatim>\<open>{token, user}\<close>.\<close>

record backend_user =
  bu_id :: int
  bu_name :: string
  bu_email :: string
  bu_store_name :: string
  bu_store_id :: "string option"

record auth_response =
  resp_token :: string
  resp_user :: backend_user

text \<open>"Transform backend user data to frontend format".\<close>

definition to_user :: "backend_user \<Rightarrow> User" where
  "to_user userData =
     \<lparr>user_id = show_int (bu_id userData),
      user_name = bu_name userData,
      user_email = bu_email userData,
      storeName = bu_store_name userData,
      storeId = (if truthy (bu_store_id userData) then js_string (bu_store_id userData) else ''1'')\<rparr>"

definition login_error_message :: "errorObj \<Rightarrow> string" where
  "login_error_message e =
     (if err_code e = Some ''ERR_NETWORK'' \<or> err_message e = Some ''Network Error''
      then ''Network error: Cannot connect to server. Please check if your backend is running.''
      else if truthy (error_data e) then js_string (error_data e)
      else if truthy (err_message e) then js_string (err_message e)
      else ''Login failed'')"

definition signup_error_message :: "errorObj \<Rightarrow> string" where
  "signup_error_message e =
     (if err_code e = Some ''ECONNABORTED''
      then ''Request timed out. Your backend might be starting up. Please try again in 30 seconds.''
      else if err_code e = Some ''ERR_NETWORK'' \<or> err_message e = Some ''Network Error''
      then ''Network error: Cannot reach server. Please check if your backend is running.''
      else if error_status e = Some 503
      then ''Server temporarily unavailable. Backend might be restarting.''
      else if truthy (error_data e) then js_string (error_data e)
      else if truthy (err_message e) then js_string (err_message e)
      else ''Signup failed'')"

text \<open>
  \<^verbatim>\<open>login\<close> and \<^verbatim>\<open>signup\<close>; \<open>stringify\<close> is the platform's \<^verbatim>\<open>JSON.stringify\<close> on a user
  object, \<open>out\<close> the outcome of the request.  The credentials typed by the user go to
  the server only and do not appear.
\<close>

definition login ::
  "(string \<Rightarrow> payload_exp) \<Rightarrow> (User \<Rightarrow> string) \<Rightarrow> int \<Rightarrow> int \<times> refresh_response \<Rightarrow>
   auth_response axios_result \<Rightarrow> app \<Rightarrow> bool \<times> app" where
  "login dec stringify now reply out s0 =
     (let s = api_request dec now reply out (s0\<lparr>loading := True, error := []\<rparr>)
      in case out of
           Resolved d \<Rightarrow>
             (let u = to_user (resp_user d)
              in (True,
                  (setItem ''auth_token'' (resp_token d)
                    (setItem ''user_data'' (stringify u) (s\<lparr>user := Some u\<rparr>)))\<lparr>loading := False\<rparr>))
         | Rejected e \<Rightarrow> (False, s\<lparr>error := login_error_message e, loading := False\<rparr>))"

definition signup ::
  "(string \<Rightarrow> payload_exp) \<Rightarrow> (User \<Rightarrow> string) \<Rightarrow> int \<Rightarrow> int \<times> refresh_response \<Rightarrow>
   auth_response axios_result \<Rightarrow> app \<Rightarrow> bool \<times> app" where
  "signup dec stringify now reply out s0 =
     (let s = api_request dec now reply out (s0\<lparr>loading := True, error := []\<rparr>)
      in case out of
           Resolved d \<Rightarrow>
             (let u = to_user (resp_user d)
              in (True,
                  (setItem ''auth_token'' (resp_token d)
                    (setItem ''user_data'' (stringify u) (s\<lparr>user := Some u\<rparr>)))\<lparr>loading := False\<rparr>))
         | Rejected e \<Rightarrow> (False, s\<lparr>error := signup_error_message e, loading := False\<rparr>))"

definition logout :: "app \<Rightarrow> app" where
  "logout s =
     (removeItem ''auth_token'' (removeItem ''user_data'' (s\<lparr>user := None\<rparr>)))\<lparr>error := []\<rparr>"

definition clearError :: "app \<Rightarrow> app" where
  "clearError s = s\<lparr>error := []\<rparr>"

definition initializeAuth :: "app \<Rightarrow> app" where
  "initializeAuth s =
     (let token = getItem ''auth_token'' s;
          savedUser = getItem ''user_data'' s
      in (if truthy token \<and> truthy savedUser then s else s\<lparr>user := None\<rparr>)
           \<lparr>isInitialized := True, loading := False\<rparr>)"

text \<open>\<^verbatim>\<open>isAuthenticated: !!user && isInitialized\<close>\<close>

definition isAuthenticated :: "app \<Rightarrow> bool" where
  "isAuthenticated s = (user s \<noteq> None \<and> isInitialized s)"

section \<open>Observations and scenarios\<close>

text \<open>The delays of the timers armed so far; the code never cancels one.\<close>

definition timers :: "effect list \<Rightarrow> int list" where
  "timers tr = concat (map (\<lambda>e. case e of SetTimeout d \<Rightarrow> [d] | _ \<Rightarrow> []) tr)"

text \<open>The replies on which \<^verbatim>\<open>performTokenRefresh\<close> takes its success branch.\<close>

definition refresh_succeeds :: "refresh_response \<Rightarrow> bool" where
  "refresh_succeeds r =
     (case r of
        FetchFailed \<Rightarrow> False
      | Response status body \<Rightarrow>
          response_ok status \<and> (case body of BodyInvalid \<Rightarrow> False | Body d \<Rightarrow> True))"

text \<open>
  The state when \<^verbatim>\<open>AuthProvider\<close> mounts on an empty store: no user, \<^verbatim>\<open>loading\<close> true,
  not yet initialized, no refresh pending.
\<close>

definition fresh_app :: app where
  "fresh_app =
     \<lparr>storage = Map.empty, trace = [], refreshPromise = None, user = None,
      loading = True, error = [], isInitialized = False\<rparr>"

text \<open>
  A signed-in session whose store holds all four keys, as \<^verbatim>\<open>setTokens\<close> leaves them
  after a refresh.
\<close>

definition refreshed_app :: app where
  "refreshed_app =
     \<lparr>storage = [''auth_token'' \<mapsto> ''t1'', ''refresh_token'' \<mapsto> ''r1'',
                 ''token_expires_at'' \<mapsto> ''3600000'', ''user_data'' \<mapsto> ''{}''],
      trace = [], refreshPromise = None,
      user = Some \<lparr>user_id = ''1'', user_name = ''A'', user_email = ''a@b.com'',
                   storeName = ''S'', storeId = ''1''\<rparr>,
      loading = False, error = [], isInitialized = True\<rparr>"

text \<open>A decoder under which every payload carries the expiry \<open>e\<close>.\<close>

definition exp_at :: "int \<Rightarrow> string \<Rightarrow> payload_exp" where
  "exp_at e part = ExpSeconds e"

text \<open>The error object of a response with status 401.\<close>

definition unauthorized :: errorObj where
  "unauthorized =
     \<lparr>err_code = Some ''ERR_BAD_REQUEST'',
      err_message = Some ''Request failed with status code 401'',
      err_response = Some \<lparr>resp_status = Some 401, resp_error = Some ''Invalid credentials''\<rparr>\<rparr>"

text \<open>The same session with an access token in three parts, and one without a refresh token.\<close>

definition jwt_session :: app where
  "jwt_session = refreshed_app\<lparr>storage := (storage refreshed_app)(''auth_token'' \<mapsto> ''h.p.s'')\<rparr>"

definition no_refresh_session :: app where
  "no_refresh_session = jwt_session\<lparr>storage := (storage jwt_session)(''refresh_token'' := None)\<rparr>"

text \<open>A body of the refresh endpoint that carries a new access token and no refresh token.\<close>

definition new_tokens :: refresh_data where
  "new_tokens = \<lparr>data_access_token = Some ''h.p2.s'', data_refresh_token = None,
                 data_expires_in = Some 3600\<rparr>"

text \<open>The event loop with no caller waiting and none finished.\<close>

definition idle_sys :: "app \<Rightarrow> sys" where
  "idle_sys s = \<lparr>core = s, awaiting = [], settled = Map.empty\<rparr>"


text \<open>A stand-in for \<^verbatim>\<open>JSON.stringify\<close> on a user: the fields, separated by commas.\<close>

definition plain_stringify :: "User \<Rightarrow> string" where
  "plain_stringify u =
     user_id u @ '','' @ user_name u @ '','' @ user_email u @ '','' @ storeName u @ '','' @ storeId u"

text \<open>The body of a successful login: token \<^verbatim>\<open>t1\<close>, user 1 of store \<^verbatim>\<open>S\<close>.\<close>

definition login_ok :: auth_response where
  "login_ok =
     \<lparr>resp_token = ''t1'',
      resp_user = \<lparr>bu_id = 1, bu_name = ''A'', bu_email = ''a@b.com'', bu_store_name = ''S'',
                   bu_store_id = None\<rparr>\<rparr>"

section \<open>Basic facts\<close>

lemmas store_defs = getItem_def setItem_def removeItem_def navigate_def setTimeout_def
  getAccessToken_def getRefreshToken_def clearTokens_def setTokens_def

lemma fetches_append: "fetches (xs @ ys) = fetches xs + fetches ys"
  by (simp add: fetches_def)

lemma fetches_simps:
  "fetches [] = 0"
  "fetches (FetchRefresh rt # tr) = Suc (fetches tr)"
  "fetches (SetItem k v # tr) = fetches tr"
  "fetches (RemoveItem k # tr) = fetches tr"
  "fetches (Navigate u # tr) = fetches tr"
  "fetches (SetTimeout d # tr) = fetches tr"
  by (simp_all add: fetches_def)

lemma response_rejected_401:
  "error_status e = Some 401 \<Longrightarrow>
   response_rejected e s =
     s\<lparr>storage := (storage s)(''auth_token'' := None, ''user_data'' := None),
       trace := trace s @ [RemoveItem ''auth_token'', RemoveItem ''user_data'', Navigate ''/login'']\<rparr>"
  by (simp add: response_rejected_def store_defs)

lemma rejected_once:
  assumes "error_status e = Some 401"
  shows "navigations ''/login'' (trace (response_rejected e s)) = Suc (navigations ''/login'' (trace s))"
    and "removals ''auth_token'' (trace (response_rejected e s)) = Suc (removals ''auth_token'' (trace s))"
    and "removals ''user_data'' (trace (response_rejected e s)) = Suc (removals ''user_data'' (trace s))"
    and "storage (response_rejected e s) = (storage s)(''auth_token'' := None, ''user_data'' := None)"
  by (simp_all add: response_rejected_401 [OF assms] navigations_def removals_def)

lemma clear_twice:
  "(m(''auth_token'' := None, ''user_data'' := None))(''auth_token'' := None, ''user_data'' := None)
     = m(''auth_token'' := None, ''user_data'' := None)"
  by (rule ext) simp

lemma logout_idempotent: "storage (logout (logout s)) = storage (logout s)"
  by (simp add: logout_def store_defs)

lemma timers_append: "timers (xs @ ys) = timers xs @ timers ys"
  by (simp add: timers_def)

lemma timers_simps:
  "timers [] = []"
  "timers (SetTimeout d # tr) = d # timers tr"
  "timers (FetchRefresh rt # tr) = timers tr"
  "timers (SetItem k v # tr) = timers tr"
  "timers (RemoveItem k # tr) = timers tr"
  "timers (Navigate u # tr) = timers tr"
  by (simp_all add: timers_def)

lemma timers_performTokenRefresh_recv:
  "timers (trace (snd (performTokenRefresh_recv now rt r s))) = timers (trace s)"
  by (auto simp: performTokenRefresh_recv_def store_defs timers_append timers_simps
      split: refresh_response.splits refresh_body.splits)

lemma timers_performTokenRefresh:
  "timers (trace (snd (performTokenRefresh now rt r s))) = timers (trace s)"
  by (simp add: performTokenRefresh_def timers_performTokenRefresh_recv
      performTokenRefresh_send_def timers_append timers_simps)

lemma schedule_jwt:
  assumes "storage s ''auth_token'' = Some tok"
    and "length (split_dot tok) = 3"
    and "dec (split_dot tok ! 1) = ExpSeconds e"
  shows "scheduleTokenRefresh dec now s =
     (if now < e * 1000 - 600000 then setTimeout (e * 1000 - now - 600000) s else s)"
proof -
  have ne: "tok \<noteq> []" using assms(2) by auto
  have nl: "tok \<noteq> ''local-test-token''" using assms(2) by auto
  show ?thesis
    using assms ne nl
    by (auto simp: scheduleTokenRefresh_def isTokenExpired_def fiveMinutes_def Let_def store_defs)
qed

lemma isTokenExpired_given:
  "tok \<noteq> [] \<Longrightarrow> isTokenExpired dec now (Some tok) s = isTokenExpired dec now (Some tok) s'"
  by (simp add: isTokenExpired_def)

lemma expired_not_local:
  "isTokenExpired dec now (Some tok) s \<Longrightarrow> tok \<noteq> [] \<Longrightarrow> tok \<noteq> ''local-test-token''"
  by (auto simp: isTokenExpired_def)

lemma start_no_token:
  "\<not> truthy (storage s ''auth_token'') \<Longrightarrow> getValidAccessToken_start dec now s = (Returned None, s)"
  by (cases "storage s ''auth_token''") (simp_all add: getValidAccessToken_start_def store_defs)

lemma start_valid:
  "storage s ''auth_token'' = Some tok \<Longrightarrow> tok \<noteq> [] \<Longrightarrow> \<not> isTokenExpired dec now (Some tok) s \<Longrightarrow>
   getValidAccessToken_start dec now s = (Returned (Some tok), s)"
  by (simp add: getValidAccessToken_start_def store_defs)

lemma start_expired:
  assumes "storage s ''auth_token'' = Some tok" "tok \<noteq> []" "isTokenExpired dec now (Some tok) s"
  shows "getValidAccessToken_start dec now s =
     (case refreshAccessToken_start s of
        (Returned refreshed, s1) \<Rightarrow>
          (let (v, s2) = getValidAccessToken_resume refreshed s1 in (Returned v, s2))
      | (Awaiting pending, s1) \<Rightarrow> (Awaiting pending, s1))"
  using assms expired_not_local [OF assms(3) assms(2)]
  by (simp add: getValidAccessToken_start_def store_defs)

lemma refresh_start_pending:
  "refreshPromise s = Some p \<Longrightarrow> refreshAccessToken_start s = (Awaiting p, s)"
  by (simp add: refreshAccessToken_start_def)

lemma refresh_start_issue:
  "refreshPromise s = None \<Longrightarrow> storage s ''refresh_token'' = Some rt \<Longrightarrow> rt \<noteq> [] \<Longrightarrow>
   refreshAccessToken_start s =
     (Awaiting rt, (performTokenRefresh_send rt s)\<lparr>refreshPromise := Some rt\<rparr>)"
  by (simp add: refreshAccessToken_start_def store_defs)

lemma refresh_start_no_token:
  "refreshPromise s = None \<Longrightarrow> \<not> truthy (storage s ''refresh_token'') \<Longrightarrow>
   refreshAccessToken_start s = (Returned False, clearTokens s)"
  by (cases "storage s ''refresh_token''") (simp_all add: refreshAccessToken_start_def store_defs)

lemma settle_result:
  "fst (refreshAccessToken_settle rnow p r s) = refresh_succeeds r"
  by (auto simp: refreshAccessToken_settle_def performTokenRefresh_recv_def refresh_succeeds_def
      split: refresh_response.splits refresh_body.splits prod.splits)

lemma settle_success_token:
  "response_ok st \<Longrightarrow>
   storage (snd (refreshAccessToken_settle rnow p (Response st (Body d)) s)) ''auth_token''
     = Some (js_string (data_access_token d))"
  by (auto simp: refreshAccessToken_settle_def performTokenRefresh_recv_def store_defs)

lemma settle_keeps:
  "fetches (trace (snd (refreshAccessToken_settle rnow p r s))) = fetches (trace s)"
  "refreshPromise (snd (refreshAccessToken_settle rnow p r s)) = None"
  by (auto simp: refreshAccessToken_settle_def performTokenRefresh_recv_def store_defs
      fetches_append fetches_simps split: refresh_response.splits refresh_body.splits)

lemma gvat_awaiting:
  assumes "getValidAccessToken_start dec now s = (Awaiting p, s1)"
  shows "getValidAccessToken dec now (rnow, r) s =
     getValidAccessToken_resume (refresh_succeeds r) (snd (refreshAccessToken_settle rnow p r s1))"
  using assms settle_result [of rnow p r s1]
  by (cases "refreshAccessToken_settle rnow p r s1") (simp add: getValidAccessToken_def)

lemma gvat_failed_refresh:
  assumes "\<not> refresh_succeeds r"
    and "storage s ''auth_token'' = Some tok" "tok \<noteq> []" "isTokenExpired dec t (Some tok) s"
    and "refreshPromise s = None" "storage s ''refresh_token'' = Some rt" "rt \<noteq> []"
  shows "getValidAccessToken dec t (now, r) s =
     (None, navigate ''/'' ((clearTokens (performTokenRefresh_send rt s))\<lparr>refreshPromise := None\<rparr>))"
proof -
  have st: "getValidAccessToken_start dec t s =
      (Awaiting rt, (performTokenRefresh_send rt s)\<lparr>refreshPromise := Some rt\<rparr>)"
    using assms by (simp add: start_expired refresh_start_issue)
  have "snd (refreshAccessToken_settle now rt r ((performTokenRefresh_send rt s)\<lparr>refreshPromise := Some rt\<rparr>))
      = (clearTokens (performTokenRefresh_send rt s))\<lparr>refreshPromise := None\<rparr>"
    using assms(1)
    by (auto simp: refreshAccessToken_settle_def performTokenRefresh_recv_def refresh_succeeds_def
        store_defs performTokenRefresh_send_def split: refresh_response.splits refresh_body.splits)
  then show ?thesis
    using assms(1) by (simp add: gvat_awaiting [OF st] getValidAccessToken_resume_def)
qed

lemma call_first:
  assumes "refreshPromise (core y) = None"
    and "storage (core y) ''auth_token'' = Some tok" "tok \<noteq> []"
    and "storage (core y) ''refresh_token'' = Some rt" "rt \<noteq> []"
    and "isTokenExpired dec t (Some tok) (core y)"
  shows "step dec y (Call i t) =
     y\<lparr>core := (performTokenRefresh_send rt (core y))\<lparr>refreshPromise := Some rt\<rparr>,
       awaiting := awaiting y @ [i]\<rparr>"
  using assms by (simp add: start_expired refresh_start_issue)

lemma call_attach:
  assumes "refreshPromise (core y) = Some p"
    and "storage (core y) ''auth_token'' = Some tok" "tok \<noteq> []"
    and "isTokenExpired dec t (Some tok) (core y)"
  shows "step dec y (Call i t) = y\<lparr>awaiting := awaiting y @ [i]\<rparr>"
  using assms by (simp add: start_expired refresh_start_pending)

lemma calls_attach:
  assumes "refreshPromise (core y) = Some p"
    and "storage (core y) ''auth_token'' = Some tok" "tok \<noteq> []"
    and "\<forall>(i, t) \<in> set calls. isTokenExpired dec t (Some tok) (core y)"
  shows "run dec y (map (\<lambda>(i, t). Call i t) calls) = y\<lparr>awaiting := awaiting y @ map fst calls\<rparr>"
  using assms
proof (induction calls arbitrary: y)
  case Nil
  then show ?case by (simp add: run_def)
next
  case (Cons c calls)
  obtain i t where c: "c = (i, t)" by (cases c)
  have e: "isTokenExpired dec t (Some tok) (core y)" using Cons.prems(4) c by simp
  let ?y = "y\<lparr>awaiting := awaiting y @ [i]\<rparr>"
  have s: "step dec y (Call i t) = ?y"
    by (rule call_attach [OF Cons.prems(1) Cons.prems(2) Cons.prems(3) e])
  have "run dec ?y (map (\<lambda>(i, t). Call i t) calls) = ?y\<lparr>awaiting := awaiting ?y @ map fst calls\<rparr>"
    using Cons.prems by (intro Cons.IH) auto
  then show ?case using s c by (simp add: run_def)
qed

lemma resume_once:
  "storage (core (resume b y j)) = storage (core y)"
  "refreshPromise (core (resume b y j)) = refreshPromise (core y)"
  "fetches (trace (core (resume b y j))) = fetches (trace (core y))"
  "awaiting (resume b y j) = awaiting y"
  "settled (resume b y j) = (settled y)(j \<mapsto> (if b then storage (core y) ''auth_token'' else None))"
  by (simp_all add: resume_def getValidAccessToken_resume_def store_defs fetches_append fetches_simps)

lemma resume_all:
  "storage (core (foldl (resume b) y is)) = storage (core y) \<and>
   refreshPromise (core (foldl (resume b) y is)) = refreshPromise (core y) \<and>
   fetches (trace (core (foldl (resume b) y is))) = fetches (trace (core y)) \<and>
   awaiting (foldl (resume b) y is) = awaiting y \<and>
   (\<forall>i. settled (foldl (resume b) y is) i =
      (if i \<in> set is then Some (if b then storage (core y) ''auth_token'' else None)
       else settled y i))"
proof (induction "is" arbitrary: y)
  case Nil
  then show ?case by simp
next
  case (Cons j js)
  show ?case
    using Cons.IH [of "resume b y j"] by (simp add: resume_once)
qed





section \<open>Expiry test\<close>

text \<open>
  C2, as the code has it.  The skew is fixed at 300 seconds and the comparison is strict: a
  non-empty token counts as expired exactly when it has three dot-separated parts, its
  payload decodes to a numeric expiry \<open>e\<close> (in seconds), and \<open>e * 1000 < now + 300000\<close>.
  In particular a token that is not in three parts, or whose payload cannot be decoded or
  has no numeric expiry, is never expired.
\<close>

theorem isTokenExpired_strict:
  assumes "tok \<noteq> []"
  shows "isTokenExpired dec now (Some tok) s =
     (length (split_dot tok) = 3 \<and>
      (case dec (split_dot tok ! 1) of
         ExpSeconds e \<Rightarrow> e * 1000 < now + 300000
       | _ \<Rightarrow> False))"
proof (cases "tok = ''local-test-token''")
  case True
  then show ?thesis by (simp add: isTokenExpired_def)
next
  case False
  with assms show ?thesis
    by (auto simp: isTokenExpired_def fiveMinutes_def Let_def split: payload_exp.splits)
qed

theorem isTokenExpired_strict_witness:
  "isTokenExpired (exp_at 1000) 700001 (Some ''h.p.s'') fresh_app \<and>
   \<not> isTokenExpired (exp_at 1000) 700000 (Some ''h.p.s'') fresh_app \<and>
   \<not> isTokenExpired (exp_at 1000) 700000 (Some ''opaque'') fresh_app"
  using isTokenExpired_strict [of "''h.p.s''" "exp_at 1000" 700001 fresh_app]
    isTokenExpired_strict [of "''h.p.s''" "exp_at 1000" 700000 fresh_app]
    isTokenExpired_strict [of "''opaque''" "exp_at 1000" 700000 fresh_app]
  by (simp add: exp_at_def)

text \<open>
  C2 as the specification states it fails on the boundary: with the expiry claim at 1000 s
  and the clock at 700000 ms, \<open>now + skew = exp\<close>, so the stated test \<open>now + skew \<ge> exp\<close>
  holds, and \<^verbatim>\<open>isTokenExpired\<close> answers \<^verbatim>\<open>false\<close>.
\<close>

theorem isTokenExpired_boundary_counterexample:
  "\<not> (isTokenExpired (exp_at 1000) 700000 (Some ''h.p.s'') fresh_app
       = (700000 + 300 * 1000 \<ge> (1000::int) * 1000))"
  by (simp add: isTokenExpired_def exp_at_def fiveMinutes_def)

section \<open>Authorization rejections\<close>

text \<open>
  C3, as the code has it.  The response interceptor has no guard flag: each response with
  status 401 removes the access token and the user profile and assigns \<^verbatim>\<open>/login\<close> to
  the location.  N rejections make N removals of each key and N navigations; the store
  after them is the store after the first.
\<close>

theorem rejections_each_clear_and_navigate:
  "\<forall>e \<in> set es. error_status e = Some 401 \<Longrightarrow>
   navigations ''/login'' (trace (foldl (\<lambda>s e. response_rejected e s) s es))
     = navigations ''/login'' (trace s) + length es \<and>
   removals ''auth_token'' (trace (foldl (\<lambda>s e. response_rejected e s) s es))
     = removals ''auth_token'' (trace s) + length es \<and>
   removals ''user_data'' (trace (foldl (\<lambda>s e. response_rejected e s) s es))
     = removals ''user_data'' (trace s) + length es \<and>
   storage (foldl (\<lambda>s e. response_rejected e s) s es)
     = (if es = [] then storage s else (storage s)(''auth_token'' := None, ''user_data'' := None))"
proof (induction es arbitrary: s)
  case Nil
  then show ?case by simp
next
  case (Cons e es)
  have e: "error_status e = Some 401" using Cons.prems by simp
  have rest: "\<forall>e \<in> set es. error_status e = Some 401" using Cons.prems by simp
  note IH = Cons.IH [OF rest, of "response_rejected e s", unfolded rejected_once [OF e]]
  show ?case
    using IH by (auto simp: clear_twice fun_eq_iff)
qed

theorem rejections_each_clear_and_navigate_witness:
  "navigations ''/login''
     (trace (foldl (\<lambda>s e. response_rejected e s) refreshed_app [unauthorized, unauthorized])) = 2 \<and>
   removals ''auth_token''
     (trace (foldl (\<lambda>s e. response_rejected e s) refreshed_app [unauthorized, unauthorized])) = 2 \<and>
   storage (foldl (\<lambda>s e. response_rejected e s) refreshed_app [unauthorized, unauthorized])
     ''auth_token'' = None"
  using rejections_each_clear_and_navigate [of "[unauthorized, unauthorized]" refreshed_app]
  by (simp add: error_status_def unauthorized_def refreshed_app_def navigations_def removals_def)

text \<open>
  C3 as the specification states it fails: three requests rejected with 401 make three
  navigations to \<^verbatim>\<open>/login\<close> and three removals of the access token, not one.
\<close>

theorem three_rejections_counterexample:
  "navigations ''/login''
     (trace (response_rejected unauthorized
        (response_rejected unauthorized (response_rejected unauthorized refreshed_app)))) = 3 \<and>
   removals ''auth_token''
     (trace (response_rejected unauthorized
        (response_rejected unauthorized (response_rejected unauthorized refreshed_app)))) = 3"
  by (simp add: response_rejected_def error_status_def unauthorized_def refreshed_app_def
      store_defs navigations_def removals_def)

section \<open>Logout\<close>

text \<open>
  C5 at a store that holds all four keys: \<^verbatim>\<open>logout\<close> removes the access token and the
  user profile and leaves the refresh token and the computed expiry in the store, where
  \<^verbatim>\<open>clearTokens\<close> removes them.
\<close>

theorem logout_leaves_refresh_token:
  "storage (logout refreshed_app) ''auth_token'' = None \<and>
   storage (logout refreshed_app) ''user_data'' = None \<and>
   storage (logout refreshed_app) ''refresh_token'' = Some ''r1'' \<and>
   storage (logout refreshed_app) ''token_expires_at'' = Some ''3600000'' \<and>
   storage (clearTokens refreshed_app) ''refresh_token'' = None \<and>
   storage (clearTokens refreshed_app) ''token_expires_at'' = None"
  by (simp add: logout_def refreshed_app_def store_defs)

section \<open>Refresh failure\<close>

text \<open>
  C7.  Whenever the refresh attempt fails (the request is rejected by the transport, the
  status is not 2xx, or the body cannot be read), \<^verbatim>\<open>performTokenRefresh\<close> reports
  \<^verbatim>\<open>false\<close>, none of the four keys is left in the store, and the attempt has issued
  exactly one request: there is no retry.  The owner's continuation then frees the slot
  and passes the same \<^verbatim>\<open>false\<close> on.  Seen from the caller: a call of
  \<^verbatim>\<open>getValidAccessToken\<close> that starts such a refresh returns \<^verbatim>\<open>null\<close>, with the store
  cleared, the slot free and one request issued in all.
\<close>

theorem failed_refresh_clears_store:
  assumes "\<not> refresh_succeeds r"
  shows "fst (performTokenRefresh now rt r s) = False \<and>
   storage (snd (performTokenRefresh now rt r s)) =
     (storage s)(''auth_token'' := None, ''refresh_token'' := None,
                 ''token_expires_at'' := None, ''user_data'' := None) \<and>
   fetches (trace (snd (performTokenRefresh now rt r s))) = fetches (trace s) + 1 \<and>
   refreshAccessToken_settle now rt r (performTokenRefresh_send rt s) =
     (False, (snd (performTokenRefresh now rt r s))\<lparr>refreshPromise := None\<rparr>) \<and>
   (storage s ''auth_token'' = Some tok \<and> tok \<noteq> [] \<and> isTokenExpired dec t (Some tok) s \<and>
    refreshPromise s = None \<and> storage s ''refresh_token'' = Some rt \<and> rt \<noteq> [] \<longrightarrow>
      fst (getValidAccessToken dec t (now, r) s) = None \<and>
      storage (snd (getValidAccessToken dec t (now, r) s)) =
        (storage s)(''auth_token'' := None, ''refresh_token'' := None,
                    ''token_expires_at'' := None, ''user_data'' := None) \<and>
      fetches (trace (snd (getValidAccessToken dec t (now, r) s))) = fetches (trace s) + 1 \<and>
      refreshPromise (snd (getValidAccessToken dec t (now, r) s)) = None)"
proof -
  have part1: "fst (performTokenRefresh now rt r s) = False \<and>
   storage (snd (performTokenRefresh now rt r s)) =
     (storage s)(''auth_token'' := None, ''refresh_token'' := None,
                 ''token_expires_at'' := None, ''user_data'' := None) \<and>
   fetches (trace (snd (performTokenRefresh now rt r s))) = fetches (trace s) + 1 \<and>
   refreshAccessToken_settle now rt r (performTokenRefresh_send rt s) =
     (False, (snd (performTokenRefresh now rt r s))\<lparr>refreshPromise := None\<rparr>)"
    using assms
    by (auto simp: performTokenRefresh_def performTokenRefresh_recv_def performTokenRefresh_send_def
      refreshAccessToken_settle_def refresh_succeeds_def store_defs fetches_append fetches_simps
      split: refresh_response.splits refresh_body.splits)
  have part2: "fst (getValidAccessToken dec t (now, r) s) = None \<and>
      storage (snd (getValidAccessToken dec t (now, r) s)) =
        (storage s)(''auth_token'' := None, ''refresh_token'' := None,
                    ''token_expires_at'' := None, ''user_data'' := None) \<and>
      fetches (trace (snd (getValidAccessToken dec t (now, r) s))) = fetches (trace s) + 1 \<and>
      refreshPromise (snd (getValidAccessToken dec t (now, r) s)) = None"
    if "storage s ''auth_token'' = Some tok \<and> tok \<noteq> [] \<and> isTokenExpired dec t (Some tok) s \<and>
        refreshPromise s = None \<and> storage s ''refresh_token'' = Some rt \<and> rt \<noteq> []"
    using that gvat_failed_refresh [OF assms, of s tok dec t rt now]
    by (simp add: store_defs performTokenRefresh_send_def fetches_append fetches_simps)
  show ?thesis using part1 part2 by blast
qed

theorem failed_refresh_clears_store_witness:
  "\<not> refresh_succeeds FetchFailed \<and>
   \<not> refresh_succeeds (Response 401 BodyInvalid) \<and>
   \<not> refresh_succeeds (Response 200 BodyInvalid) \<and>
   fst (performTokenRefresh 0 ''r1'' FetchFailed refreshed_app) = False \<and>
   storage (snd (performTokenRefresh 0 ''r1'' (Response 401 BodyInvalid) refreshed_app)) ''auth_token''
     = None \<and>
   fetches (trace (snd (performTokenRefresh 0 ''r1'' (Response 200 BodyInvalid) refreshed_app))) = 1 \<and>
   fst (getValidAccessToken (exp_at 1000) 900000 (950000, Response 401 BodyInvalid) jwt_session) = None \<and>
   fetches (trace (snd (getValidAccessToken (exp_at 1000) 900000 (950000, Response 401 BodyInvalid)
     jwt_session))) = 1"
  using failed_refresh_clears_store [of FetchFailed 0 "''r1''" refreshed_app]
    failed_refresh_clears_store [of "Response 401 BodyInvalid" 0 "''r1''" refreshed_app]
    failed_refresh_clears_store [of "Response 200 BodyInvalid" 0 "''r1''" refreshed_app]
    failed_refresh_clears_store [of "Response 401 BodyInvalid" 950000 "''r1''" jwt_session
      "''h.p.s''" "exp_at 1000" 900000]
  by (simp add: refresh_succeeds_def response_ok_def refreshed_app_def jwt_session_def fetches_def
      isTokenExpired_def exp_at_def fiveMinutes_def)

section \<open>Proactive refresh\<close>

text \<open>
  C4, as the code has it.  A refresh, successful or not, neither cancels nor arms a timer:
  the timers after \<^verbatim>\<open>performTokenRefresh\<close> are the timers before it.  The only place
  that arms one is \<^verbatim>\<open>scheduleTokenRefresh\<close>: called at time \<open>now\<close> with a stored
  three-part access token whose expiry claim is \<open>e\<close> seconds, it arms one timer that fires
  at \<open>e * 1000 - 600000\<close> (ten minutes before the expiry) when that instant is still
  ahead, and none otherwise.
\<close>

theorem refresh_leaves_timers_schedule_arms_one:
  "timers (trace (snd (performTokenRefresh rnow rt r s))) = timers (trace s) \<and>
   (storage s ''auth_token'' = Some tok \<and> length (split_dot tok) = 3 \<and>
    dec (split_dot tok ! 1) = ExpSeconds e \<longrightarrow>
      timers (trace (scheduleTokenRefresh dec now s)) =
        timers (trace s) @ (if now < e * 1000 - 600 * 1000 then [e * 1000 - 600 * 1000 - now] else []))"
  by (auto simp: timers_performTokenRefresh schedule_jwt setTimeout_def timers_append timers_simps)

theorem refresh_leaves_timers_schedule_arms_one_witness:
  "timers (trace (scheduleTokenRefresh (exp_at 3600) 1000000 jwt_session)) = [2000000] \<and>
   timers (trace (scheduleTokenRefresh (exp_at 3600) 3000000 jwt_session)) = []"
  using refresh_leaves_timers_schedule_arms_one [of 0 "''r1''" FetchFailed jwt_session "''h.p.s''" "exp_at 3600" 3600 1000000]
    refresh_leaves_timers_schedule_arms_one [of 0 "''r1''" FetchFailed jwt_session "''h.p.s''" "exp_at 3600" 3600 3000000]
  by (simp add: jwt_session_def refreshed_app_def exp_at_def timers_def)

text \<open>
  C4 as the specification states it fails: a refresh that succeeds at time 0 and stores
  the expiry 3600000 leaves no timer armed, although \<open>3600000 - 600000\<close> is still ahead.
\<close>

theorem successful_refresh_arms_no_timer_counterexample:
  "fst (performTokenRefresh 0 ''r1'' (Response 200 (Body new_tokens)) jwt_session) \<and>
   storage (snd (performTokenRefresh 0 ''r1'' (Response 200 (Body new_tokens)) jwt_session))
     ''token_expires_at'' = Some ''3600000'' \<and>
   timers (trace (snd (performTokenRefresh 0 ''r1'' (Response 200 (Body new_tokens)) jwt_session))) = []"
  by (simp add: performTokenRefresh_def performTokenRefresh_recv_def performTokenRefresh_send_def
      response_ok_def new_tokens_def jwt_session_def refreshed_app_def store_defs timers_def
      show_int_def digit_char_def)

section \<open>Getting a valid token\<close>

text \<open>
  C8.  One call of \<^verbatim>\<open>getValidAccessToken\<close>, run to its end.  With no stored access
  token (\<^verbatim>\<open>null\<close> or empty) it returns \<^verbatim>\<open>null\<close> and leaves the state as it is; with a
  stored token that is not expired it returns that token and leaves the state as it is, so
  in both cases nothing is refreshed.  With an expired token and a refresh under way or a
  refresh token to start one, it waits for the reply: on a 2xx reply with a readable body
  it returns the access token of that reply, which is then the stored one, and on a failed
  refresh it returns \<^verbatim>\<open>null\<close>.  With an expired token, no refresh under way and no
  refresh token it returns \<^verbatim>\<open>null\<close> as well.
\<close>

theorem getValidAccessToken_outcomes:
  "(\<not> truthy (storage s ''auth_token'') \<longrightarrow> getValidAccessToken dec now reply s = (None, s)) \<and>
   (storage s ''auth_token'' = Some tok \<and> tok \<noteq> [] \<and> \<not> isTokenExpired dec now (Some tok) s \<longrightarrow>
      getValidAccessToken dec now reply s = (Some tok, s)) \<and>
   (storage s ''auth_token'' = Some tok \<and> tok \<noteq> [] \<and> isTokenExpired dec now (Some tok) s \<and>
    (refreshPromise s \<noteq> None \<or> truthy (storage s ''refresh_token'')) \<longrightarrow>
      (response_ok st \<longrightarrow>
         fst (getValidAccessToken dec now (rnow, Response st (Body d)) s)
           = Some (js_string (data_access_token d)) \<and>
         storage (snd (getValidAccessToken dec now (rnow, Response st (Body d)) s)) ''auth_token''
           = Some (js_string (data_access_token d))) \<and>
      (\<not> refresh_succeeds r \<longrightarrow> fst (getValidAccessToken dec now (rnow, r) s) = None)) \<and>
   (storage s ''auth_token'' = Some tok \<and> tok \<noteq> [] \<and> isTokenExpired dec now (Some tok) s \<and>
    refreshPromise s = None \<and> \<not> truthy (storage s ''refresh_token'') \<longrightarrow>
      fst (getValidAccessToken dec now reply s) = None)"
proof (intro conjI impI)
  assume "\<not> truthy (storage s ''auth_token'')"
  then show "getValidAccessToken dec now reply s = (None, s)"
    by (simp add: getValidAccessToken_def start_no_token)
next
  assume "storage s ''auth_token'' = Some tok \<and> tok \<noteq> [] \<and> \<not> isTokenExpired dec now (Some tok) s"
  then show "getValidAccessToken dec now reply s = (Some tok, s)"
    by (simp add: getValidAccessToken_def start_valid)
next
  assume a: "storage s ''auth_token'' = Some tok \<and> tok \<noteq> [] \<and> isTokenExpired dec now (Some tok) s \<and>
    (refreshPromise s \<noteq> None \<or> truthy (storage s ''refresh_token''))"
  then obtain p s1 where st: "getValidAccessToken_start dec now s = (Awaiting p, s1)"
    by (cases "refreshPromise s"; cases "storage s ''refresh_token''")
       (auto simp: start_expired refresh_start_pending refresh_start_issue)
  {
    assume ok: "response_ok st"
    have succ: "refresh_succeeds (Response st (Body d))" using ok by (simp add: refresh_succeeds_def)
    show "fst (getValidAccessToken dec now (rnow, Response st (Body d)) s)
           = Some (js_string (data_access_token d))"
      by (simp add: gvat_awaiting [OF st] succ getValidAccessToken_resume_def store_defs
          settle_success_token [OF ok, unfolded store_defs])
    show "storage (snd (getValidAccessToken dec now (rnow, Response st (Body d)) s)) ''auth_token''
           = Some (js_string (data_access_token d))"
      by (simp add: gvat_awaiting [OF st] succ getValidAccessToken_resume_def
          settle_success_token [OF ok])
  }
  {
    assume "\<not> refresh_succeeds r"
    then show "fst (getValidAccessToken dec now (rnow, r) s) = None"
      by (simp add: gvat_awaiting [OF st] getValidAccessToken_resume_def)
  }
next
  assume "storage s ''auth_token'' = Some tok \<and> tok \<noteq> [] \<and> isTokenExpired dec now (Some tok) s \<and>
    refreshPromise s = None \<and> \<not> truthy (storage s ''refresh_token'')"
  then show "fst (getValidAccessToken dec now reply s) = None"
    by (simp add: getValidAccessToken_def start_expired refresh_start_no_token
        getValidAccessToken_resume_def)
qed

theorem getValidAccessToken_outcomes_witness:
  "getValidAccessToken (exp_at 1000) 900000 (950000, FetchFailed) fresh_app = (None, fresh_app) \<and>
   getValidAccessToken (exp_at 1000) 900000 (950000, FetchFailed) refreshed_app
     = (Some ''t1'', refreshed_app) \<and>
   fst (getValidAccessToken (exp_at 1000) 900000 (950000, Response 200 (Body new_tokens)) jwt_session)
     = Some ''h.p2.s'' \<and>
   fst (getValidAccessToken (exp_at 1000) 900000 (950000, FetchFailed) jwt_session) = None \<and>
   fst (getValidAccessToken (exp_at 1000) 900000 (950000, FetchFailed) no_refresh_session) = None"
  using getValidAccessToken_outcomes [where s = fresh_app and dec = "exp_at 1000" and now = 900000
      and reply = "(950000, FetchFailed)"]
    getValidAccessToken_outcomes [where s = refreshed_app and dec = "exp_at 1000" and now = 900000
      and reply = "(950000, FetchFailed)" and tok = "''t1''"]
    getValidAccessToken_outcomes [where s = jwt_session and dec = "exp_at 1000" and now = 900000
      and tok = "''h.p.s''" and st = 200 and rnow = 950000 and d = new_tokens and r = FetchFailed]
    getValidAccessToken_outcomes [where s = no_refresh_session and dec = "exp_at 1000" and now = 900000
      and reply = "(950000, FetchFailed)" and tok = "''h.p.s''"]
  by (simp add: fresh_app_def refreshed_app_def jwt_session_def no_refresh_session_def exp_at_def
      new_tokens_def isTokenExpired_def fiveMinutes_def response_ok_def refresh_succeeds_def)

section \<open>Expired token without a refresh token\<close>

text \<open>
  C10.  When the stored access token is expired, no refresh token is stored and no refresh
  is under way, \<^verbatim>\<open>getValidAccessToken\<close> returns \<^verbatim>\<open>null\<close> after \<^verbatim>\<open>clearTokens\<close> and the
  assignment of \<^verbatim>\<open>/\<close> to the location: the four keys are gone from the store and no
  request has been issued.
\<close>

theorem expired_without_refresh_token:
  assumes "storage s ''auth_token'' = Some tok" and "tok \<noteq> []"
    and "isTokenExpired dec now (Some tok) s"
    and "\<not> truthy (storage s ''refresh_token'')"
    and "refreshPromise s = None"
  shows "getValidAccessToken dec now reply s = (None, navigate ''/'' (clearTokens s)) \<and>
    storage (navigate ''/'' (clearTokens s)) =
      (storage s)(''auth_token'' := None, ''refresh_token'' := None,
                  ''token_expires_at'' := None, ''user_data'' := None) \<and>
    fetches (trace (navigate ''/'' (clearTokens s))) = fetches (trace s)"
  using assms
  by (simp add: getValidAccessToken_def start_expired refresh_start_no_token
      getValidAccessToken_resume_def)
     (simp add: store_defs fetches_append fetches_simps)

theorem expired_without_refresh_token_witness:
  "fst (getValidAccessToken (exp_at 1000) 900000 (950000, Response 200 (Body new_tokens))
     no_refresh_session) = None \<and>
   storage (snd (getValidAccessToken (exp_at 1000) 900000 (950000, Response 200 (Body new_tokens))
     no_refresh_session)) ''user_data'' = None \<and>
   fetches (trace (snd (getValidAccessToken (exp_at 1000) 900000
     (950000, Response 200 (Body new_tokens)) no_refresh_session))) = 0"
  using expired_without_refresh_token [of no_refresh_session "''h.p.s''" "exp_at 1000" 900000
      "(950000, Response 200 (Body new_tokens))"]
  by (simp add: no_refresh_session_def jwt_session_def refreshed_app_def exp_at_def
      isTokenExpired_def fiveMinutes_def fetches_def)

section \<open>Single-flight refresh\<close>

text \<open>
  C1.  Start with no refresh under way and nobody waiting, an access token that is stored
  and a refresh token that is stored.  Let any non-empty list of callers call
  \<^verbatim>\<open>getValidAccessToken\<close>, each at a time at which the token is expired, and let the reply
  of the refresh endpoint arrive after the last call.  Then after the calls the slot is
  taken, every caller waits, and exactly one request has been issued; the reply issues no
  further request, frees the slot, and gives every caller the same result: the token then
  stored if the refresh succeeded, \<^verbatim>\<open>null\<close> if it failed.
\<close>

theorem single_flight:
  assumes slot: "refreshPromise (core y) = None"
    and idle: "awaiting y = []"
    and tok: "storage (core y) ''auth_token'' = Some tok" "tok \<noteq> []"
    and rt: "storage (core y) ''refresh_token'' = Some rt" "rt \<noteq> []"
    and expired: "\<forall>(i, t) \<in> set calls. isTokenExpired dec t (Some tok) (core y)"
    and some: "calls \<noteq> []"
    and y1: "y1 = run dec y (map (\<lambda>(i, t). Call i t) calls)"
    and y2: "y2 = step dec y1 (Reply rnow r)"
  shows "refreshPromise (core y1) = Some rt \<and> awaiting y1 = map fst calls \<and>
     fetches (trace (core y1)) = fetches (trace (core y)) + 1 \<and>
     fetches (trace (core y2)) = fetches (trace (core y)) + 1 \<and>
     refreshPromise (core y2) = None \<and> awaiting y2 = [] \<and>
     (\<forall>i \<in> set (map fst calls).
        settled y2 i = Some (if refresh_succeeds r then storage (core y2) ''auth_token'' else None))"
proof -
  obtain i t rest where calls: "calls = (i, t) # rest"
    using some by (cases calls) auto
  let ?s0 = "(performTokenRefresh_send rt (core y))\<lparr>refreshPromise := Some rt\<rparr>"
  let ?y0 = "y\<lparr>core := ?s0, awaiting := awaiting y @ [i]\<rparr>"
  have e0: "isTokenExpired dec t (Some tok) (core y)" using expired calls by simp
  have first: "step dec y (Call i t) = ?y0"
    by (rule call_first [OF slot tok rt e0])
  have st0: "storage ?s0 = storage (core y)" by (simp add: performTokenRefresh_send_def)
  have rest: "\<forall>(i, t) \<in> set rest. isTokenExpired dec t (Some tok) (core ?y0)"
  proof clarify
    fix a b
    assume "(a, b) \<in> set rest"
    then have "isTokenExpired dec b (Some tok) (core y)" using expired calls by auto
    then show "isTokenExpired dec b (Some tok) (core ?y0)"
      by (simp only: isTokenExpired_given [OF tok(2), of dec b "core ?y0" "core y"])
  qed
  have "run dec ?y0 (map (\<lambda>(i, t). Call i t) rest) = ?y0\<lparr>awaiting := awaiting ?y0 @ map fst rest\<rparr>"
    by (rule calls_attach [OF _ _ tok(2) rest]) (simp_all add: st0 tok)
  then have y1_eq: "y1 = y\<lparr>core := ?s0, awaiting := map fst calls\<rparr>"
    using y1 calls first idle by (simp add: run_def)
  have f1: "fetches (trace (core y1)) = fetches (trace (core y)) + 1"
    by (simp add: y1_eq performTokenRefresh_send_def fetches_append fetches_simps)
  obtain s1 where settle: "refreshAccessToken_settle rnow rt r ?s0 = (refresh_succeeds r, s1)"
    using settle_result [of rnow rt r ?s0]
    by (cases "refreshAccessToken_settle rnow rt r ?s0") simp
  have s1: "fetches (trace s1) = fetches (trace ?s0)" "refreshPromise s1 = None"
    using settle_keeps [of rnow rt r ?s0] settle by simp_all
  let ?y1' = "y\<lparr>core := s1, awaiting := []\<rparr>"
  have y2_eq: "y2 = foldl (resume (refresh_succeeds r)) ?y1' (map fst calls)"
    using y2 settle by (simp add: y1_eq)
  note R = resume_all [of "refresh_succeeds r" ?y1' "map fst calls", folded y2_eq]
  have before: "refreshPromise (core y1) = Some rt \<and> awaiting y1 = map fst calls"
    by (simp add: y1_eq)
  have after: "fetches (trace (core y2)) = fetches (trace (core y)) + 1 \<and>
     refreshPromise (core y2) = None \<and> awaiting y2 = []"
    using R s1 f1 by (simp add: y1_eq)
  have results: "\<forall>i \<in> set (map fst calls).
        settled y2 i = Some (if refresh_succeeds r then storage (core y2) ''auth_token'' else None)"
    using R by simp
  show ?thesis
    using before f1 after results by blast
qed

theorem single_flight_witness:
  "fetches (trace (core (step (exp_at 1000) (run (exp_at 1000) (idle_sys jwt_session)
      (map (\<lambda>(i, t). Call i t) [(1, 900000), (2, 900001), (3, 900002)]))
      (Reply 950000 (Response 200 (Body new_tokens)))))) = 1 \<and>
   settled (step (exp_at 1000) (run (exp_at 1000) (idle_sys jwt_session)
      (map (\<lambda>(i, t). Call i t) [(1, 900000), (2, 900001), (3, 900002)]))
      (Reply 950000 (Response 200 (Body new_tokens)))) 1 = Some (Some ''h.p2.s'') \<and>
   settled (step (exp_at 1000) (run (exp_at 1000) (idle_sys jwt_session)
      (map (\<lambda>(i, t). Call i t) [(1, 900000), (2, 900001), (3, 900002)]))
      (Reply 950000 (Response 200 (Body new_tokens)))) 2 = Some (Some ''h.p2.s'') \<and>
   settled (step (exp_at 1000) (run (exp_at 1000) (idle_sys jwt_session)
      (map (\<lambda>(i, t). Call i t) [(1, 900000), (2, 900001), (3, 900002)]))
      (Reply 950000 (Response 200 (Body new_tokens)))) 3 = Some (Some ''h.p2.s'')"
proof -
  let ?calls = "[(1::nat, 900000::int), (2, 900001), (3, 900002)]"
  let ?y1 = "run (exp_at 1000) (idle_sys jwt_session) (map (\<lambda>(i, t). Call i t) ?calls)"
  let ?r = "Response 200 (Body new_tokens)"
  let ?y2 = "step (exp_at 1000) ?y1 (Reply 950000 ?r)"
  have slot: "refreshPromise (core (idle_sys jwt_session)) = None"
    by (simp add: idle_sys_def jwt_session_def refreshed_app_def)
  have idle: "awaiting (idle_sys jwt_session) = []"
    by (simp add: idle_sys_def)
  have tok: "storage (core (idle_sys jwt_session)) ''auth_token'' = Some ''h.p.s''" "''h.p.s'' \<noteq> []"
    by (simp_all add: idle_sys_def jwt_session_def refreshed_app_def)
  have rt: "storage (core (idle_sys jwt_session)) ''refresh_token'' = Some ''r1''" "''r1'' \<noteq> []"
    by (simp_all add: idle_sys_def jwt_session_def refreshed_app_def)
  have expired: "\<forall>(i, t) \<in> set ?calls.
      isTokenExpired (exp_at 1000) t (Some ''h.p.s'') (core (idle_sys jwt_session))"
    by (simp add: isTokenExpired_def exp_at_def fiveMinutes_def)
  have some: "?calls \<noteq> []" by simp
  note T = single_flight [OF slot idle tok rt expired some refl refl, of 950000 ?r]
  have succ: "refresh_succeeds ?r" by (simp add: refresh_succeeds_def response_ok_def)
  have f0: "fetches (trace (core (idle_sys jwt_session))) = 0"
    by (simp add: idle_sys_def jwt_session_def refreshed_app_def fetches_def)
  have new: "storage (core ?y2) ''auth_token'' = Some ''h.p2.s''"
    by (simp add: run_def idle_sys_def jwt_session_def refreshed_app_def exp_at_def
        getValidAccessToken_start_def refreshAccessToken_start_def isTokenExpired_def fiveMinutes_def
        performTokenRefresh_send_def refreshAccessToken_settle_def performTokenRefresh_recv_def
        response_ok_def new_tokens_def resume_def getValidAccessToken_resume_def store_defs)
  show ?thesis
    using T succ f0 new by (simp del: step.simps)
qed

section \<open>Failed login and signup\<close>



section \<open>Session state and store\<close>

text \<open>
  C6, as the code has it.  The session is authenticated when a user is set and the
  provider is initialized.  A successful login or signup sets the user and stores the
  access token and the user profile; \<^verbatim>\<open>initializeAuth\<close> leaves the session authenticated
  only if both are stored; \<^verbatim>\<open>logout\<close> leaves it unauthenticated with both removed.  A
  response with status 401 and a failed refresh remove the access token and the user
  profile from the store and do not touch the session state.
\<close>

theorem session_backed_where_established:
  "(user (snd (login dec stringify now reply (Resolved d) s)) = Some (to_user (resp_user d)) \<and>
    storage (snd (login dec stringify now reply (Resolved d) s)) ''auth_token'' = Some (resp_token d) \<and>
    storage (snd (login dec stringify now reply (Resolved d) s)) ''user_data''
      = Some (stringify (to_user (resp_user d)))) \<and>
   (user (snd (signup dec stringify now reply (Resolved d) s)) = Some (to_user (resp_user d)) \<and>
    storage (snd (signup dec stringify now reply (Resolved d) s)) ''auth_token'' = Some (resp_token d) \<and>
    storage (snd (signup dec stringify now reply (Resolved d) s)) ''user_data''
      = Some (stringify (to_user (resp_user d)))) \<and>
   (isAuthenticated (initializeAuth s) \<longrightarrow>
      truthy (storage (initializeAuth s) ''auth_token'') \<and>
      truthy (storage (initializeAuth s) ''user_data'')) \<and>
   (\<not> isAuthenticated (logout s) \<and>
    storage (logout s) ''auth_token'' = None \<and> storage (logout s) ''user_data'' = None) \<and>
   (error_status e = Some 401 \<longrightarrow>
      storage (response_rejected e s) ''auth_token'' = None \<and>
      storage (response_rejected e s) ''user_data'' = None \<and>
      isAuthenticated (response_rejected e s) = isAuthenticated s) \<and>
   (\<not> refresh_succeeds r \<longrightarrow>
      storage (snd (refreshAccessToken_settle rnow rt r s)) ''auth_token'' = None \<and>
      storage (snd (refreshAccessToken_settle rnow rt r s)) ''user_data'' = None \<and>
      isAuthenticated (snd (refreshAccessToken_settle rnow rt r s)) = isAuthenticated s)"
proof (intro conjI impI)
  show "user (snd (login dec stringify now reply (Resolved d) s)) = Some (to_user (resp_user d))"
    by (simp add: login_def api_request_def store_defs Let_def split: prod.splits)
  show "storage (snd (login dec stringify now reply (Resolved d) s)) ''auth_token'' = Some (resp_token d)"
    by (simp add: login_def api_request_def store_defs Let_def split: prod.splits)
  show "storage (snd (login dec stringify now reply (Resolved d) s)) ''user_data''
      = Some (stringify (to_user (resp_user d)))"
    by (simp add: login_def api_request_def store_defs Let_def split: prod.splits)
  show "user (snd (signup dec stringify now reply (Resolved d) s)) = Some (to_user (resp_user d))"
    by (simp add: signup_def api_request_def store_defs Let_def split: prod.splits)
  show "storage (snd (signup dec stringify now reply (Resolved d) s)) ''auth_token'' = Some (resp_token d)"
    by (simp add: signup_def api_request_def store_defs Let_def split: prod.splits)
  show "storage (snd (signup dec stringify now reply (Resolved d) s)) ''user_data''
      = Some (stringify (to_user (resp_user d)))"
    by (simp add: signup_def api_request_def store_defs Let_def split: prod.splits)
next
  assume "isAuthenticated (initializeAuth s)"
  then show "truthy (storage (initializeAuth s) ''auth_token'')"
    and "truthy (storage (initializeAuth s) ''user_data'')"
    by (auto simp: isAuthenticated_def initializeAuth_def Let_def store_defs split: if_splits)
next
  show "\<not> isAuthenticated (logout s)" "storage (logout s) ''auth_token'' = None"
    "storage (logout s) ''user_data'' = None"
    by (simp_all add: isAuthenticated_def logout_def store_defs)
next
  assume "error_status e = Some 401"
  then show "storage (response_rejected e s) ''auth_token'' = None"
    "storage (response_rejected e s) ''user_data'' = None"
    "isAuthenticated (response_rejected e s) = isAuthenticated s"
    by (simp_all add: response_rejected_401 isAuthenticated_def)
next
  assume "\<not> refresh_succeeds r"
  then show "storage (snd (refreshAccessToken_settle rnow rt r s)) ''auth_token'' = None"
    "storage (snd (refreshAccessToken_settle rnow rt r s)) ''user_data'' = None"
    "isAuthenticated (snd (refreshAccessToken_settle rnow rt r s)) = isAuthenticated s"
    by (auto simp: refreshAccessToken_settle_def performTokenRefresh_recv_def refresh_succeeds_def
        isAuthenticated_def store_defs split: refresh_response.splits refresh_body.splits)
qed

theorem session_backed_where_established_witness:
  "storage (snd (login (exp_at 0) plain_stringify 0 (0, FetchFailed) (Resolved login_ok) fresh_app))
     ''auth_token'' = Some ''t1'' \<and>
   storage (snd (login (exp_at 0) plain_stringify 0 (0, FetchFailed) (Resolved login_ok) fresh_app))
     ''user_data'' = Some ''1,A,a@b.com,S,1'' \<and>
   isAuthenticated (initializeAuth refreshed_app) \<and>
   truthy (storage (initializeAuth refreshed_app) ''auth_token'') \<and>
   truthy (storage (initializeAuth refreshed_app) ''user_data'') \<and>
   storage (response_rejected unauthorized refreshed_app) ''user_data'' = None \<and>
   storage (snd (refreshAccessToken_settle 0 ''r1'' FetchFailed refreshed_app)) ''auth_token'' = None"
  using session_backed_where_established [of "exp_at 0" plain_stringify 0 "(0, FetchFailed)" login_ok
      fresh_app unauthorized FetchFailed 0 "''r1''"]
    session_backed_where_established [of "exp_at 0" plain_stringify 0 "(0, FetchFailed)" login_ok
      refreshed_app unauthorized FetchFailed 0 "''r1''"]
  by (simp add: isAuthenticated_def initializeAuth_def refreshed_app_def store_defs
      error_status_def unauthorized_def refresh_succeeds_def login_ok_def to_user_def
      plain_stringify_def show_int_def digit_char_def)

text \<open>
  C6 as the specification states it fails: in a signed-in session a response with status
  401 empties the store of the access token, and the session is still authenticated.
\<close>

theorem rejection_leaves_session_authenticated_counterexample:
  "isAuthenticated refreshed_app \<and> storage refreshed_app ''auth_token'' = Some ''t1'' \<and>
   isAuthenticated (response_rejected unauthorized refreshed_app) \<and>
   storage (response_rejected unauthorized refreshed_app) ''auth_token'' = None"
  by (simp add: response_rejected_def error_status_def unauthorized_def refreshed_app_def
      isAuthenticated_def store_defs)

end
